theory Spec2Isabelle
  imports Main
begin

section \<open>runtime/metrics: the catalogue of metric descriptions\<close>

text \<open>
  The unit under verification is \<^verbatim>\<open>src/runtime/metrics/description.go\<close>: the struct
  \<^verbatim>\<open>Description\<close>, the package variable \<^verbatim>\<open>allDesc\<close> (a slice built from a composite
  literal) and the accessor \<^verbatim>\<open>All\<close>, whose body is \<^verbatim>\<open>return allDesc\<close>.
\<close>

subsection \<open>Data model\<close>

text \<open>
  Modelled from the spec: the enumeration \<^verbatim>\<open>ValueKind\<close> is declared in another file of
  the package. The spec calls it a closed enumeration of value shapes (``unsigned integer
  counter, floating-point histogram''); the two variants below are the ones the literal
  \<^verbatim>\<open>allDesc\<close> names.
\<close>

datatype ValueKind = KindUint64 | KindFloat64Histogram

text \<open>
  \<^verbatim>\<open>type Description struct { Name string; Description string; Kind ValueKind;
  Cumulative bool }\<close>. Go strings are byte sequences; every literal of the table is
  ASCII, so one \<^typ>\<open>char\<close> is one byte.
\<close>

record Description =
  Name :: string
  Description :: string
  Kind :: ValueKind
  Cumulative :: bool

text \<open>
  The composite literal of \<^verbatim>\<open>var allDesc = []Description{...}\<close>, entry by entry and in
  the order of the source. The source's \<^verbatim>\<open>+\<close> on string literals is \<open>@\<close>. An entry that
  leaves \<^verbatim>\<open>Cumulative\<close> out has Go's zero value \<^verbatim>\<open>false\<close> there.
\<close>

definition allDesc :: "Description list" where
  "allDesc = [
   \<lparr>Name = ''/gc/cycles/automatic:gc-cycles'',
     Description = ''Count of completed GC cycles generated by the Go runtime.'',
     Kind = KindUint64, Cumulative = True\<rparr>,
   \<lparr>Name = ''/gc/cycles/forced:gc-cycles'',
     Description = ''Count of completed GC cycles forced by the application.'',
     Kind = KindUint64, Cumulative = True\<rparr>,
   \<lparr>Name = ''/gc/cycles/total:gc-cycles'',
     Description = ''Count of all completed GC cycles.'',
     Kind = KindUint64, Cumulative = True\<rparr>,
   \<lparr>Name = ''/gc/heap/allocs-by-size:bytes'',
     Description = ''Distribution of heap allocations by approximate size. '' @
                     ''Note that this does not include tiny objects as defined by '' @
                     ''/gc/heap/tiny/allocs:objects, only tiny blocks.'',
     Kind = KindFloat64Histogram, Cumulative = True\<rparr>,
   \<lparr>Name = ''/gc/heap/allocs:bytes'',
     Description = ''Cumulative sum of memory allocated to the heap by the application.'',
     Kind = KindUint64, Cumulative = True\<rparr>,
   \<lparr>Name = ''/gc/heap/allocs:objects'',
     Description = ''Cumulative count of heap allocations triggered by the application. '' @
                     ''Note that this does not include tiny objects as defined by '' @
                     ''/gc/heap/tiny/allocs:objects, only tiny blocks.'',
     Kind = KindUint64, Cumulative = True\<rparr>,
   \<lparr>Name = ''/gc/heap/frees-by-size:bytes'',
     Description = ''Distribution of freed heap allocations by approximate size. '' @
                     ''Note that this does not include tiny objects as defined by '' @
                     ''/gc/heap/tiny/allocs:objects, only tiny blocks.'',
     Kind = KindFloat64Histogram, Cumulative = True\<rparr>,
   \<lparr>Name = ''/gc/heap/frees:bytes'',
     Description = ''Cumulative sum of heap memory freed by the garbage collector.'',
     Kind = KindUint64, Cumulative = True\<rparr>,
   \<lparr>Name = ''/gc/heap/frees:objects'',
     Description = ''Cumulative count of heap allocations whose storage was freed '' @
                     ''by the garbage collector. '' @
                     ''Note that this does not include tiny objects as defined by '' @
                     ''/gc/heap/tiny/allocs:objects, only tiny blocks.'',
     Kind = KindUint64, Cumulative = True\<rparr>,
   \<lparr>Name = ''/gc/heap/goal:bytes'',
     Description = ''Heap size target for the end of the GC cycle.'',
     Kind = KindUint64, Cumulative = False\<rparr>,
   \<lparr>Name = ''/gc/heap/objects:objects'',
     Description = ''Number of objects, live or unswept, occupying heap memory.'',
     Kind = KindUint64, Cumulative = False\<rparr>,
   \<lparr>Name = ''/gc/heap/tiny/allocs:objects'',
     Description = ''Count of small allocations that are packed together into blocks. '' @
                     ''These allocations are counted separately from other allocations '' @
                     ''because each individual allocation is not tracked by the runtime, '' @
                     ''only their block. Each block is already accounted for in '' @
                     ''allocs-by-size and frees-by-size.'',
     Kind = KindUint64, Cumulative = True\<rparr>,
   \<lparr>Name = ''/gc/pauses:seconds'',
     Description = ''Distribution individual GC-related stop-the-world pause latencies.'',
     Kind = KindFloat64Histogram, Cumulative = True\<rparr>,
   \<lparr>Name = ''/gc/stack/starting-size:bytes'',
     Description = ''The stack size of new goroutines.'',
     Kind = KindUint64, Cumulative = False\<rparr>,
   \<lparr>Name = ''/memory/classes/heap/free:bytes'',
     Description = ''Memory that is completely free and eligible to be returned to the underlying system, '' @
                     ''but has not been. This metric is the runtime's estimate of free address space that is backed by '' @
                     ''physical memory.'',
     Kind = KindUint64, Cumulative = False\<rparr>,
   \<lparr>Name = ''/memory/classes/heap/objects:bytes'',
     Description = ''Memory occupied by live objects and dead objects that have not yet been marked free by the garbage collector.'',
     Kind = KindUint64, Cumulative = False\<rparr>,
   \<lparr>Name = ''/memory/classes/heap/released:bytes'',
     Description = ''Memory that is completely free and has been returned to the underlying system. This '' @
                     ''metric is the runtime's estimate of free address space that is still mapped into the process, '' @
                     ''but is not backed by physical memory.'',
     Kind = KindUint64, Cumulative = False\<rparr>,
   \<lparr>Name = ''/memory/classes/heap/stacks:bytes'',
     Description = ''Memory allocated from the heap that is reserved for stack space, whether or not it is currently in-use.'',
     Kind = KindUint64, Cumulative = False\<rparr>,
   \<lparr>Name = ''/memory/classes/heap/unused:bytes'',
     Description = ''Memory that is reserved for heap objects but is not currently used to hold heap objects.'',
     Kind = KindUint64, Cumulative = False\<rparr>,
   \<lparr>Name = ''/memory/classes/metadata/mcache/free:bytes'',
     Description = ''Memory that is reserved for runtime mcache structures, but not in-use.'',
     Kind = KindUint64, Cumulative = False\<rparr>,
   \<lparr>Name = ''/memory/classes/metadata/mcache/inuse:bytes'',
     Description = ''Memory that is occupied by runtime mcache structures that are currently being used.'',
     Kind = KindUint64, Cumulative = False\<rparr>,
   \<lparr>Name = ''/memory/classes/metadata/mspan/free:bytes'',
     Description = ''Memory that is reserved for runtime mspan structures, but not in-use.'',
     Kind = KindUint64, Cumulative = False\<rparr>,
   \<lparr>Name = ''/memory/classes/metadata/mspan/inuse:bytes'',
     Description = ''Memory that is occupied by runtime mspan structures that are currently being used.'',
     Kind = KindUint64, Cumulative = False\<rparr>,
   \<lparr>Name = ''/memory/classes/metadata/other:bytes'',
     Description = ''Memory that is reserved for or used to hold runtime metadata.'',
     Kind = KindUint64, Cumulative = False\<rparr>,
   \<lparr>Name = ''/memory/classes/os-stacks:bytes'',
     Description = ''Stack memory allocated by the underlying operating system.'',
     Kind = KindUint64, Cumulative = False\<rparr>,
   \<lparr>Name = ''/memory/classes/other:bytes'',
     Description = ''Memory used by execution trace buffers, structures for debugging the runtime, finalizer and profiler specials, and more.'',
     Kind = KindUint64, Cumulative = False\<rparr>,
   \<lparr>Name = ''/memory/classes/profiling/buckets:bytes'',
     Description = ''Memory that is used by the stack trace hash map used for profiling.'',
     Kind = KindUint64, Cumulative = False\<rparr>,
   \<lparr>Name = ''/memory/classes/total:bytes'',
     Description = ''All memory mapped by the Go runtime into the current process as read-write. Note that this does not include memory mapped by code called via cgo or via the syscall package. Sum of all metrics in /memory/classes.'',
     Kind = KindUint64, Cumulative = False\<rparr>,
   \<lparr>Name = ''/sched/goroutines:goroutines'',
     Description = ''Count of live goroutines.'',
     Kind = KindUint64, Cumulative = False\<rparr>,
   \<lparr>Name = ''/sched/latencies:seconds'',
     Description = ''Distribution of the time goroutines have spent in the scheduler in a runnable state before actually running.'',
     Kind = KindFloat64Histogram, Cumulative = False\<rparr>]"

subsection \<open>Slices and the store\<close>

text \<open>
  A Go slice is a header (pointer to a backing array, length, capacity); copying the
  header does not copy the array. The store maps the address of each backing array to
  its elements. No slice expression occurs in the unit, so a header always points at
  element 0 of its array.
\<close>

type_synonym addr = nat

record slice =
  array :: addr
  len :: nat
  cap :: nat

type_synonym store = "addr \<Rightarrow> Description list"

datatype error = IndexOutOfRange

text \<open>The backing array that the composite literal allocates, and the header kept in
  the package variable \<^verbatim>\<open>allDesc\<close>. The variable is unexported and the unit never assigns
  to it, so its header is a constant.\<close>

definition allDesc_array :: addr where
  "allDesc_array = 0"

definition allDesc_var :: slice where
  "allDesc_var = \<lparr>array = allDesc_array, len = length allDesc, cap = length allDesc\<rparr>"

text \<open>The store after package initialisation: the literal's array holds the table.\<close>

definition init :: store where
  "init = (\<lambda>a. [])(allDesc_array := allDesc)"

text \<open>\<^verbatim>\<open>s[i]\<close> and \<^verbatim>\<open>s[i] = v\<close>: Go checks the index against the length and panics
  when it is out of range.\<close>

definition slice_get :: "store \<Rightarrow> slice \<Rightarrow> nat \<Rightarrow> error + Description" where
  "slice_get h s i = (if i < len s then Inr (h (array s) ! i) else Inl IndexOutOfRange)"

definition slice_set :: "slice \<Rightarrow> nat \<Rightarrow> Description \<Rightarrow> store \<Rightarrow> error + store" where
  "slice_set s i v h =
     (if i < len s then Inr (h(array s := (h (array s))[i := v])) else Inl IndexOutOfRange)"

text \<open>The sequence a slice denotes in a store: the first \<open>len\<close> elements of its array.\<close>

definition elems :: "store \<Rightarrow> slice \<Rightarrow> Description list" where
  "elems h s = take (len s) (h (array s))"

subsection \<open>The accessor\<close>

text \<open>\<^verbatim>\<open>func All() []Description { return allDesc }\<close>: no parameter, no error result;
  it returns the header of the package variable and leaves the store as it is.\<close>

definition All :: "store \<Rightarrow> slice \<times> store" where
  "All h = (allDesc_var, h)"

text \<open>The catalogue: what a call to \<^verbatim>\<open>All()\<close> denotes right after initialisation.\<close>

definition catalog :: "Description list" where
  "catalog = (case All init of (s, h) \<Rightarrow> elems h s)"

subsection \<open>The format of a metric name\<close>

text \<open>
  The doc comment of the field \<^verbatim>\<open>Name\<close> gives the format as the regular expression
  \<^verbatim>\<open>^(?P<name>/[^:]+):(?P<unit>[^:*/]+(?:[*/][^:*/]+)*)$\<close>: a path that starts with
  \<^verbatim>\<open>/\<close>, a colon, and a unit made of terms delimited by \<^verbatim>\<open>*\<close> or \<^verbatim>\<open>/\<close>.
  Neither group admits a colon, so a matching string splits at its only colon.
\<close>

definition isDelim :: "char \<Rightarrow> bool" where
  "isDelim c = (c = CHR ''*'' \<or> c = CHR ''/'')"

text \<open>Split at the first colon; \<open>None\<close> when there is no colon.\<close>

fun splitColon :: "string \<Rightarrow> (string \<times> string) option" where
  "splitColon [] = None"
| "splitColon (c # cs) =
     (if c = CHR '':'' then Some ([], cs)
      else (case splitColon cs of None \<Rightarrow> None | Some (p, u) \<Rightarrow> Some (c # p, u)))"

text \<open>The terms of a unit: the pieces between the delimiters.\<close>

fun unitTerms :: "string \<Rightarrow> string list" where
  "unitTerms [] = [[]]"
| "unitTerms (c # cs) =
     (if isDelim c then [] # unitTerms cs
      else (case unitTerms cs of [] \<Rightarrow> [[c]] | t # ts \<Rightarrow> (c # t) # ts))"

text \<open>The group \<^verbatim>\<open>/[^:]+\<close>.\<close>

definition pathOK :: "string \<Rightarrow> bool" where
  "pathOK p = (case p of [] \<Rightarrow> False | c # r \<Rightarrow> c = CHR ''/'' \<and> r \<noteq> [] \<and> CHR '':'' \<notin> set r)"

text \<open>The group \<^verbatim>\<open>[^:*/]+(?:[*/][^:*/]+)*\<close>.\<close>

definition unitOK :: "string \<Rightarrow> bool" where
  "unitOK u = (CHR '':'' \<notin> set u \<and> list_all (\<lambda>t. t \<noteq> []) (unitTerms u))"

definition parseName :: "string \<Rightarrow> (string \<times> string) option" where
  "parseName n =
     (case splitColon n of
        None \<Rightarrow> None
      | Some (p, u) \<Rightarrow> if pathOK p \<and> unitOK u then Some (p, u) else None)"

subsection \<open>String operations of the host language\<close>

text \<open>Go's \<^verbatim>\<open>strings.HasPrefix\<close> and \<^verbatim>\<open>strings.HasSuffix\<close>.\<close>

definition hasPrefix :: "string \<Rightarrow> string \<Rightarrow> bool" where
  "hasPrefix s p = (length p \<le> length s \<and> take (length p) s = p)"

definition hasSuffix :: "string \<Rightarrow> string \<Rightarrow> bool" where
  "hasSuffix s x = (length x \<le> length s \<and> drop (length s - length x) s = x)"

text \<open>Go's \<^verbatim>\<open><\<close> on strings: lexicographic on the bytes, a proper prefix first.\<close>

fun str_less :: "string \<Rightarrow> string \<Rightarrow> bool" where
  "str_less [] [] = False"
| "str_less [] (y # ys) = True"
| "str_less (x # xs) [] = False"
| "str_less (x # xs) (y # ys) =
     (if x = y then str_less xs ys else (of_char x :: nat) < of_char y)"

text \<open>The marks that end an English sentence.\<close>

definition isTerminalPunct :: "char \<Rightarrow> bool" where
  "isTerminalPunct c = (c = CHR ''.'' \<or> c = CHR ''!'' \<or> c = CHR ''?'')"

subsection \<open>Caller scenarios\<close>

text \<open>
  A caller that obtains the sequence, stores \<open>v\<close> at index \<open>i\<close> of it, and asks again:
  \<^verbatim>\<open>s1 := All(); s1[i] = v; s2 := All()\<close>. The result is what \<^verbatim>\<open>s2\<close> then denotes, or
  the panic of the store.
\<close>

definition write_then_All :: "nat \<Rightarrow> Description \<Rightarrow> store \<Rightarrow> error + Description list" where
  "write_then_All i v h0 =
     (case All h0 of (s1, h1) \<Rightarrow>
        (case slice_set s1 i v h1 of
           Inl e \<Rightarrow> Inl e
         | Inr h2 \<Rightarrow> (case All h2 of (s2, h3) \<Rightarrow> Inr (elems h3 s2))))"

text \<open>A descriptor that is not in the table.\<close>

definition bogus :: Description where
  "bogus = \<lparr>Name = ''/x:y'', Description = ''Overwritten.'', Kind = KindUint64,
            Cumulative = False\<rparr>"

section \<open>Properties\<close>

subsection \<open>Evaluating the table\<close>

lemma length_allDesc: "length allDesc = 30"
  by (simp add: allDesc_def)

lemma catalog_eq: "catalog = allDesc"
  by (simp add: catalog_def All_def elems_def allDesc_var_def init_def)

lemma length_catalog: "length catalog = 30"
  by (simp add: catalog_eq length_allDesc)

lemma All_eq: "All h = (allDesc_var, h)"
  by (simp add: All_def)

lemma elems_init: "elems init allDesc_var = allDesc"
  by (simp add: elems_def allDesc_var_def init_def)

lemma update_head: "xs \<noteq> [] \<Longrightarrow> xs[0 := v] = v # tl xs"
  by (cases xs) simp_all

lemma allDesc_names_distinct: "distinct (map Name allDesc)"
  by code_simp

lemma allDesc_names_successively: "successively str_less (map Name allDesc)"
  by code_simp

lemma allDesc_names_parse: "list_all (\<lambda>d. parseName (Name d) \<noteq> None) allDesc"
  by code_simp

lemma allDesc_by_size_cumulative:
  "list_all (\<lambda>d. hasSuffix (Name d) ''-by-size:bytes'' \<longrightarrow> Cumulative d) allDesc"
  by code_simp

lemma allDesc_descriptions:
  "list_all (\<lambda>d. Description d \<noteq> [] \<and> last (Description d) = CHR ''.'') allDesc"
  by code_simp

subsection \<open>The name format\<close>

lemma splitColon_sound:
  "splitColon n = Some (p, u) \<Longrightarrow> n = p @ CHR '':'' # u \<and> CHR '':'' \<notin> set p"
  by (induction n arbitrary: p) (auto split: if_splits option.splits)

lemma unitTerms_not_Nil: "unitTerms u \<noteq> []"
  by (cases u) (auto split: list.splits)

lemma unitTerms_chars_aux:
  "\<forall>t \<in> set (unitTerms u). set t \<subseteq> {c \<in> set u. \<not> isDelim c}"
  by (induction u) (auto split: list.splits)

lemma unitTerms_chars:
  "t \<in> set (unitTerms u) \<Longrightarrow> c \<in> set t \<Longrightarrow> c \<in> set u \<and> \<not> isDelim c"
  using unitTerms_chars_aux by blast

lemma count_colon_split:
  assumes "CHR '':'' \<notin> set p" and "CHR '':'' \<notin> set u"
  shows "count_list (p @ CHR '':'' # u) (CHR '':'') = 1"
proof -
  have "count_list p (CHR '':'') = 0" and "count_list u (CHR '':'') = 0"
    using assms by (simp_all add: count_list_0_iff)
  then show ?thesis by simp
qed

lemma parseName_sound:
  assumes "parseName n = Some (p, u)"
  shows "n = p @ CHR '':'' # u \<and> count_list n (CHR '':'') = 1
       \<and> p \<noteq> [] \<and> hd p = CHR ''/'' \<and> tl p \<noteq> []
       \<and> unitTerms u \<noteq> []
       \<and> (\<forall>t \<in> set (unitTerms u).
             t \<noteq> [] \<and> CHR '':'' \<notin> set t \<and> CHR ''*'' \<notin> set t \<and> CHR ''/'' \<notin> set t)"
proof -
  from assms have sp: "splitColon n = Some (p, u)" and ok: "pathOK p" "unitOK u"
    by (auto simp: parseName_def split: option.splits if_splits)
  from sp have n: "n = p @ CHR '':'' # u" and np: "CHR '':'' \<notin> set p"
    using splitColon_sound by blast+
  from ok(2) have nu: "CHR '':'' \<notin> set u" and ne: "\<forall>t \<in> set (unitTerms u). t \<noteq> []"
    by (simp_all add: unitOK_def list_all_iff)
  from ok(1) have p: "p \<noteq> [] \<and> hd p = CHR ''/'' \<and> tl p \<noteq> []"
    by (cases p) (simp_all add: pathOK_def)
  have cnt: "count_list n (CHR '':'') = 1"
    unfolding n using np nu by (rule count_colon_split)
  have terms: "CHR '':'' \<notin> set t \<and> CHR ''*'' \<notin> set t \<and> CHR ''/'' \<notin> set t"
    if "t \<in> set (unitTerms u)" for t
    using unitTerms_chars [OF that] nu by (auto simp: isDelim_def)
  show ?thesis
    using n cnt p unitTerms_not_Nil ne terms by blast
qed

subsection \<open>The order on strings\<close>

lemma str_less_irrefl: "\<not> str_less x x"
  by (induction x) simp_all

lemma str_less_trans: "str_less x y \<Longrightarrow> str_less y z \<Longrightarrow> str_less x z"
proof (induction x y arbitrary: z rule: str_less.induct)
  case 1
  then show ?case by simp
next
  case (2 y ys)
  then show ?case by (cases z) simp_all
next
  case (3 x xs)
  then show ?case by simp
next
  case (4 a xs b ys)
  show ?case
  proof (cases z)
    case Nil
    with 4 show ?thesis by simp
  next
    case (Cons c zs)
    show ?thesis
    proof (cases "a = b")
      case True
      with 4 Cons show ?thesis by (auto split: if_splits)
    next
      case False
      with 4 Cons show ?thesis by (auto split: if_splits)
    qed
  qed
qed

lemma sorted_str_less_distinct: "sorted_wrt str_less xs \<Longrightarrow> distinct xs"
  by (induction xs) (auto simp: str_less_irrefl)

lemma allDesc_names_sorted: "sorted_wrt str_less (map Name allDesc)"
proof -
  have "transp str_less"
    by (rule transpI) (rule str_less_trans)
  then show ?thesis
    using allDesc_names_successively by (simp add: successively_conv_sorted_wrt)
qed

section \<open>The claims\<close>

subsection \<open>The accessor and the store\<close>

text \<open>
  C1, as the specification states it: storing a new descriptor into the sequence returned
  by one call of \<^verbatim>\<open>All()\<close> leaves the result of the next call unchanged. The code returns the
  header of the package variable, so the caller writes into the registry's own array:
  after \<^verbatim>\<open>All()[0] = bogus\<close> the next call no longer denotes the catalogue, its first
  element is \<open>bogus\<close>.
\<close>

theorem All_write_through_counterexample:
  "write_then_All 0 bogus init \<noteq> Inr catalog
   \<and> write_then_All 0 bogus init = Inr (bogus # tl catalog)"
proof -
  have run: "write_then_All 0 bogus init = Inr (allDesc[0 := bogus])"
    by (simp add: write_then_All_def All_def slice_set_def elems_def allDesc_var_def
        init_def length_allDesc)
  have ne: "allDesc \<noteq> []"
    using length_allDesc by auto
  have upd: "allDesc[0 := bogus] = bogus # tl allDesc"
    using ne by (rule update_head)
  have "Name (hd allDesc) \<noteq> Name bogus"
    by code_simp
  then have "bogus # tl allDesc \<noteq> allDesc"
    using ne by (metis list.sel(1))
  with run upd show ?thesis
    by (simp add: catalog_eq)
qed

text \<open>
  C1, amended: \<^verbatim>\<open>All()\<close> hands out the registry's own backing array, not a copy. The call
  itself leaves the store as it is, but a store of \<open>v\<close> at an index \<open>i\<close> within the length
  of the returned sequence is seen by the next call, which denotes the catalogue with
  element \<open>i\<close> replaced by \<open>v\<close>.
\<close>

theorem All_write_through:
  assumes "i < length catalog"
  shows "write_then_All i v init = Inr (catalog[i := v])
       \<and> catalog[i := v] ! i = v
       \<and> array (fst (All init)) = allDesc_array
       \<and> snd (All init) = init"
  using assms
  by (simp add: write_then_All_def All_def slice_set_def elems_def allDesc_var_def
      init_def catalog_eq)

theorem All_write_through_witness:
  "0 < length catalog
   \<and> write_then_All 0 bogus init = Inr (catalog[0 := bogus])
   \<and> catalog[0 := bogus] ! 0 = bogus
   \<and> array (fst (All init)) = allDesc_array
   \<and> snd (All init) = init"
proof -
  have h: "0 < length catalog"
    by (simp add: length_catalog)
  show ?thesis
    using h All_write_through [OF h, of bogus] by simp
qed

text \<open>
  C7: \<^verbatim>\<open>All()\<close> is deterministic and stable. It takes nothing but the store and has no
  error result; it returns the store it was given (no side effect); the header it returns
  is the same in every store, so the sequences of two calls have the same length and the
  same element at every index, whichever store they are read in; and read right after
  initialisation, the second of two calls denotes the catalogue.
\<close>

theorem All_deterministic:
  "snd (All h) = h
   \<and> fst (All h) = fst (All h')
   \<and> len (fst (All h)) = len (fst (All h'))
   \<and> elems h'' (fst (All h)) = elems h'' (fst (All h'))
   \<and> slice_get h'' (fst (All h)) i = slice_get h'' (fst (All h')) i
   \<and> length (elems (snd (All init)) (fst (All init))) = length allDesc
   \<and> elems (snd (All (snd (All init)))) (fst (All (snd (All init)))) = catalog"
  by (simp add: All_def elems_init catalog_eq)

subsection \<open>Names\<close>

text \<open>
  C2: the name of every descriptor of the catalogue matches the format of the doc
  comment. It parses into a path and a unit around its only colon; the path starts with
  \<^verbatim>\<open>/\<close> and has something after it; the unit consists of at least one term, and every
  term is non-empty and free of \<^verbatim>\<open>:\<close>, \<^verbatim>\<open>*\<close> and \<^verbatim>\<open>/\<close>. The two names of the
  specification's scenario split into the path and the unit it gives.
\<close>

theorem catalog_names_match_format:
  assumes "d \<in> set catalog"
  shows "(\<exists>p u. parseName (Name d) = Some (p, u)
            \<and> Name d = p @ CHR '':'' # u
            \<and> count_list (Name d) (CHR '':'') = 1
            \<and> p \<noteq> [] \<and> hd p = CHR ''/'' \<and> tl p \<noteq> []
            \<and> unitTerms u \<noteq> []
            \<and> (\<forall>t \<in> set (unitTerms u).
                  t \<noteq> [] \<and> CHR '':'' \<notin> set t \<and> CHR ''*'' \<notin> set t \<and> CHR ''/'' \<notin> set t))
       \<and> parseName ''/gc/heap/goal:bytes'' = Some (''/gc/heap/goal'', ''bytes'')
       \<and> parseName ''/gc/heap/allocs-by-size:bytes''
           = Some (''/gc/heap/allocs-by-size'', ''bytes'')"
proof -
  from assms have "parseName (Name d) \<noteq> None"
    using allDesc_names_parse by (simp add: catalog_eq list_all_iff)
  then obtain p u where pu: "parseName (Name d) = Some (p, u)"
    by auto
  have ex1: "parseName ''/gc/heap/goal:bytes'' = Some (''/gc/heap/goal'', ''bytes'')"
    by code_simp
  have ex2: "parseName ''/gc/heap/allocs-by-size:bytes''
      = Some (''/gc/heap/allocs-by-size'', ''bytes'')"
    by code_simp
  from parseName_sound [OF pu] pu ex1 ex2 show ?thesis
    by blast
qed

theorem catalog_names_match_format_witness:
  "catalog ! 9 \<in> set catalog
   \<and> Name (catalog ! 9) = ''/gc/heap/goal:bytes''
   \<and> (\<exists>p u. parseName (Name (catalog ! 9)) = Some (p, u)
            \<and> Name (catalog ! 9) = p @ CHR '':'' # u
            \<and> count_list (Name (catalog ! 9)) (CHR '':'') = 1
            \<and> p \<noteq> [] \<and> hd p = CHR ''/'' \<and> tl p \<noteq> []
            \<and> unitTerms u \<noteq> []
            \<and> (\<forall>t \<in> set (unitTerms u).
                  t \<noteq> [] \<and> CHR '':'' \<notin> set t \<and> CHR ''*'' \<notin> set t \<and> CHR ''/'' \<notin> set t))"
proof -
  have m: "catalog ! 9 \<in> set catalog"
    by (simp add: length_catalog)
  have n: "Name (catalog ! 9) = ''/gc/heap/goal:bytes''"
    unfolding catalog_eq by code_simp
  show ?thesis
    using m n catalog_names_match_format [OF m] by blast
qed

text \<open>
  C3: names are unique in the catalogue: descriptors at distinct indices of the sequence
  returned by \<^verbatim>\<open>All()\<close> have different names.
\<close>

theorem catalog_names_unique:
  assumes "i < length catalog" and "j < length catalog" and "i \<noteq> j"
  shows "Name (catalog ! i) \<noteq> Name (catalog ! j)"
proof -
  have "map Name catalog ! i \<noteq> map Name catalog ! j"
    using assms allDesc_names_distinct
      nth_eq_iff_index_eq [of "map Name allDesc" i j]
    by (simp add: catalog_eq del: nth_map)
  with assms show ?thesis
    by simp
qed

theorem catalog_names_unique_witness:
  "(0::nat) < length catalog \<and> (1::nat) < length catalog \<and> (0::nat) \<noteq> 1
   \<and> Name (catalog ! 0) \<noteq> Name (catalog ! 1)"
proof -
  have a: "(0::nat) < length catalog" and b: "(1::nat) < length catalog"
    by (simp_all add: length_catalog)
  have c: "(0::nat) \<noteq> 1"
    by simp
  show ?thesis
    using a b c catalog_names_unique [OF a b c] by simp
qed

text \<open>
  C9: the sequence returned by \<^verbatim>\<open>All()\<close> is strictly sorted by name in the byte-wise
  lexicographic order: each name is strictly less than the next one, and so the list of
  names as a whole is strictly ascending.
\<close>

theorem catalog_strictly_sorted:
  assumes "Suc i < length catalog"
  shows "str_less (Name (catalog ! i)) (Name (catalog ! Suc i))
       \<and> sorted_wrt str_less (map Name catalog)"
proof -
  have "str_less (map Name allDesc ! i) (map Name allDesc ! Suc i)"
    using assms by (intro successively_nth [OF allDesc_names_successively])
      (simp add: catalog_eq)
  with assms show ?thesis
    using allDesc_names_sorted by (simp add: catalog_eq)
qed

theorem catalog_strictly_sorted_witness:
  "Suc 0 < length catalog
   \<and> str_less (Name (catalog ! 0)) (Name (catalog ! Suc 0))
   \<and> sorted_wrt str_less (map Name catalog)"
proof -
  have h: "Suc 0 < length catalog"
    by (simp add: length_catalog)
  show ?thesis
    using h catalog_strictly_sorted [OF h] by simp
qed

subsection \<open>Kinds, the cumulative flag and descriptions\<close>

text \<open>
  C4: filtering the catalogue for the histogram kind gives exactly the descriptors of
  that kind, which are the four distributions
  \<^verbatim>\<open>/gc/heap/allocs-by-size:bytes\<close>, \<^verbatim>\<open>/gc/heap/frees-by-size:bytes\<close>,
  \<^verbatim>\<open>/gc/pauses:seconds\<close> and \<^verbatim>\<open>/sched/latencies:seconds\<close>; so the first and the third
  are in the result and \<^verbatim>\<open>/gc/heap/goal:bytes\<close> is not.
\<close>

theorem histogram_filter:
  "set (filter (\<lambda>d. Kind d = KindFloat64Histogram) catalog)
     = {d \<in> set catalog. Kind d = KindFloat64Histogram}
   \<and> map Name (filter (\<lambda>d. Kind d = KindFloat64Histogram) catalog)
     = [''/gc/heap/allocs-by-size:bytes'', ''/gc/heap/frees-by-size:bytes'',
        ''/gc/pauses:seconds'', ''/sched/latencies:seconds'']
   \<and> ''/gc/heap/allocs-by-size:bytes''
       \<in> set (map Name (filter (\<lambda>d. Kind d = KindFloat64Histogram) catalog))
   \<and> ''/gc/pauses:seconds''
       \<in> set (map Name (filter (\<lambda>d. Kind d = KindFloat64Histogram) catalog))
   \<and> ''/gc/heap/goal:bytes''
       \<notin> set (map Name (filter (\<lambda>d. Kind d = KindFloat64Histogram) catalog))"
proof -
  have names: "map Name (filter (\<lambda>d. Kind d = KindFloat64Histogram) allDesc)
     = [''/gc/heap/allocs-by-size:bytes'', ''/gc/heap/frees-by-size:bytes'',
        ''/gc/pauses:seconds'', ''/sched/latencies:seconds'']"
    by code_simp
  show ?thesis
    unfolding catalog_eq names by auto
qed

text \<open>
  C5: every descriptor of the catalogue whose name ends in \<^verbatim>\<open>-by-size:bytes\<close> is
  cumulative.
\<close>

theorem by_size_cumulative:
  assumes "d \<in> set catalog" and "hasSuffix (Name d) ''-by-size:bytes''"
  shows "Cumulative d"
  using assms allDesc_by_size_cumulative by (simp add: catalog_eq list_all_iff)

theorem by_size_cumulative_witness:
  "catalog ! 3 \<in> set catalog
   \<and> hasSuffix (Name (catalog ! 3)) ''-by-size:bytes''
   \<and> Cumulative (catalog ! 3)"
proof -
  have m: "catalog ! 3 \<in> set catalog"
    by (simp add: length_catalog)
  have s: "hasSuffix (Name (catalog ! 3)) ''-by-size:bytes''"
    unfolding catalog_eq by code_simp
  show ?thesis
    using m s by_size_cumulative [OF m s] by simp
qed

text \<open>
  C6: the catalogue has a descriptor named \<^verbatim>\<open>/memory/classes/total:bytes\<close> that is not
  cumulative, and there are descriptors under \<^verbatim>\<open>/memory/classes/\<close> other than the total.
\<close>

theorem memory_classes_total:
  "(\<exists>d \<in> set catalog. Name d = ''/memory/classes/total:bytes'' \<and> \<not> Cumulative d)
   \<and> filter (\<lambda>d. hasPrefix (Name d) ''/memory/classes/''
                  \<and> Name d \<noteq> ''/memory/classes/total:bytes'') catalog \<noteq> []"
  unfolding catalog_eq by code_simp

text \<open>
  C8: every description of the catalogue is non-empty and ends with terminal punctuation,
  namely a full stop.
\<close>

theorem descriptions_nonempty_punctuated:
  assumes "d \<in> set catalog"
  shows "Description d \<noteq> [] \<and> isTerminalPunct (last (Description d))
       \<and> last (Description d) = CHR ''.''"
  using assms allDesc_descriptions
  by (simp add: catalog_eq list_all_iff isTerminalPunct_def)

theorem descriptions_nonempty_punctuated_witness:
  "catalog ! 0 \<in> set catalog
   \<and> Description (catalog ! 0) \<noteq> [] \<and> isTerminalPunct (last (Description (catalog ! 0)))
   \<and> last (Description (catalog ! 0)) = CHR ''.''"
proof -
  have m: "catalog ! 0 \<in> set catalog"
    by (simp add: length_catalog)
  show ?thesis
    using m descriptions_nonempty_punctuated [OF m] by blast
qed

text \<open>
  C10: not every histogram is cumulative: the catalogue has a descriptor named
  \<^verbatim>\<open>/sched/latencies:seconds\<close> of kind \<^verbatim>\<open>KindFloat64Histogram\<close> whose \<^verbatim>\<open>Cumulative\<close> is
  false.
\<close>

theorem sched_latencies_not_cumulative:
  "\<exists>d \<in> set catalog. Name d = ''/sched/latencies:seconds''
      \<and> Kind d = KindFloat64Histogram \<and> \<not> Cumulative d"
  unfolding catalog_eq by code_simp

end
